theory Spec2Isabelle
  imports Complex_Main
begin

section \<open>Python values\<close>

text \<open>
  The adapter of \<^verbatim>\<open>src/models/moonshot_model.py\<close> is a class over the third-party
  \<^verbatim>\<open>openai\<close> client. Its methods are embedded as functions that take the object
  (\<open>self\<close>) and return either a raised exception (\<open>Inl\<close>) or the returned value
  (\<open>Inr\<close>); where a method talks to the provider it also takes and returns the list of
  calls of the client library made so far.

  An exception is kept with the text \<^verbatim>\<open>str(e)\<close> gives. \<open>OtherError\<close> stands for any
  class that derives from \<^verbatim>\<open>Exception\<close> and is raised outside this module (the
  client library's \<^verbatim>\<open>APIConnectionError\<close>, \<^verbatim>\<open>AuthenticationError\<close>, ...), with its
  class name. \<open>BaseExceptionOnly\<close> stands for the classes that derive from
  \<^verbatim>\<open>BaseException\<close> but not from \<^verbatim>\<open>Exception\<close> (\<^verbatim>\<open>KeyboardInterrupt\<close>,
  \<^verbatim>\<open>SystemExit\<close>): a clause \<^verbatim>\<open>except Exception\<close> lets them pass, a bare
  \<^verbatim>\<open>except:\<close> catches them.
\<close>

datatype exn =
    ValueError string
  | Exception string
  | IndexError string
  | AttributeError string
  | OtherError string string
  | BaseExceptionOnly string string

fun str :: "exn \<Rightarrow> string" where
  "str (ValueError m) = m"
| "str (Exception m) = m"
| "str (IndexError m) = m"
| "str (AttributeError m) = m"
| "str (OtherError c m) = m"
| "str (BaseExceptionOnly c m) = m"

fun isinstance_Exception :: "exn \<Rightarrow> bool" where
  "isinstance_Exception (BaseExceptionOnly c m) = False"
| "isinstance_Exception e = True"

text \<open>
  The values that travel as keyword arguments. A dict literal is an association list in
  the order it is written (its keys are distinct in every literal of the source). A float
  is only handed on, never computed with; it is kept as the number its literal denotes.
\<close>

type_synonym 'v dict = "(string \<times> 'v) list"

datatype pyval =
    PyNone
  | PyBool bool
  | PyInt int
  | PyFloat real
  | PyStr string
  | PyList "pyval list"
  | PyDict "(string \<times> pyval) list"

text \<open>
  The text of the \<^verbatim>\<open>AttributeError\<close> that reading attribute \<open>a\<close> of an object of class
  \<open>cls\<close> raises when the object has none (the character \<open>0x27\<close> is the single quote).
\<close>

definition has_no_attribute :: "string \<Rightarrow> string \<Rightarrow> string" where
  "has_no_attribute cls a =
    [CHR 0x27] @ cls @ [CHR 0x27] @ '' object has no attribute '' @ [CHR 0x27] @ a @ [CHR 0x27]"

text \<open>\<^verbatim>\<open>d.get(k, default)\<close>\<close>

definition dict_get :: "'v dict \<Rightarrow> string \<Rightarrow> 'v \<Rightarrow> 'v" where
  "dict_get d k dflt = (case map_of d k of Some v \<Rightarrow> v | None \<Rightarrow> dflt)"

text \<open>\<^verbatim>\<open>a or b\<close> on an optional string: \<open>None\<close> and the empty string are falsy.\<close>

definition or_else :: "string option \<Rightarrow> string \<Rightarrow> string" where
  "or_else a b = (case a of None \<Rightarrow> b | Some s \<Rightarrow> if s = [] then b else s)"

text \<open>A keyword argument with a default value: \<open>None\<close> when the caller leaves it out.\<close>

definition arg_or_default :: "'a option \<Rightarrow> 'a \<Rightarrow> 'a" where
  "arg_or_default a d = (case a of None \<Rightarrow> d | Some v \<Rightarrow> v)"

section \<open>The client library, as far as the adapter uses it\<close>

text \<open>
  \<^verbatim>\<open>OpenAI(api_key=..., base_url=...)\<close> builds a handle that holds both values. What
  the adapter reads of a chat completion: \<^verbatim>\<open>choices[0].message.content\<close> (a list of
  choices, the content optional in the library's type), \<^verbatim>\<open>usage.total_tokens\<close> (the
  usage optional in the library's type) and \<^verbatim>\<open>model_dump()\<close>, the whole payload as a
  dict, kept here as a value of any type \<open>'raw\<close>.
\<close>

datatype OpenAI = OpenAI (client_api_key: string) (client_base_url: string)

datatype ChatCompletionMessage = ChatCompletionMessage (message_content: "string option")

datatype Choice = Choice (message: ChatCompletionMessage)

datatype CompletionUsage = CompletionUsage (total_tokens: int)

record 'raw ChatCompletion =
  choices :: "Choice list"
  completion_usage :: "CompletionUsage option"
  model_dump :: 'raw

text \<open>
  The provider is outside the program. It is a parameter of every method that reaches it:
  for each of the two methods of the client library that the adapter calls, the outcome of
  a call (an exception raised by the client library, or the reply) as a function of the
  calls made before, the handle and the keyword arguments. The calls are logged in the
  order they are made. An entry of the log is one call of a library method, not one HTTP
  request: what the library does inside a call (the requests it sends, and the retries of
  its own that the default \<^verbatim>\<open>max_retries\<close> of the handle allows, which the adapter
  leaves in place) is part of the outcome and is not counted.
\<close>

datatype call =
    ModelsList OpenAI
  | ChatCompletionsCreate OpenAI "pyval dict"

record 'raw remote =
  models_list_reply :: "call list \<Rightarrow> OpenAI \<Rightarrow> exn + unit"
  create_reply :: "call list \<Rightarrow> OpenAI \<Rightarrow> pyval dict \<Rightarrow> exn + 'raw ChatCompletion"

text \<open>\<^verbatim>\<open>client.models.list()\<close>\<close>

definition models_list ::
  "'raw remote \<Rightarrow> OpenAI \<Rightarrow> call list \<Rightarrow> (exn + unit) \<times> call list" where
  "models_list rm c sent = (models_list_reply rm sent c, sent @ [ModelsList c])"

text \<open>\<^verbatim>\<open>client.chat.completions.create(**kw)\<close>\<close>

definition chat_completions_create ::
  "'raw remote \<Rightarrow> OpenAI \<Rightarrow> pyval dict \<Rightarrow> call list
    \<Rightarrow> (exn + 'raw ChatCompletion) \<times> call list" where
  "chat_completions_create rm c kw sent = (create_reply rm sent c kw, sent @ [ChatCompletionsCreate c kw])"

section \<open>The base class\<close>

text \<open>
  Modelled from the spec: \<^verbatim>\<open>ModelResponse\<close> of \<^verbatim>\<open>base_model.py\<close>, which is not among
  the sources. The spec's Response is \<^emph>\<open>textual content, raw provider payload, model
  identifier used, usage counters (mapping, at minimum total token count)\<close>; the field
  names are the keyword arguments of the one call that builds it.
\<close>

record 'raw ModelResponse =
  content :: "string option"
  raw_response :: 'raw
  model_name :: string
  usage :: "int dict"

text \<open>
  Modelled from the spec: \<^verbatim>\<open>BaseModel.__init__(api_key=...)\<close> of \<^verbatim>\<open>base_model.py\<close>,
  which is not among the sources. The spec says construction \<^emph>\<open>resolves credential
  (argument value, else from process-wide configuration/environment)\<close>: the stored
  \<^verbatim>\<open>self.api_key\<close> is the argument when one is given, else what the environment holds
  (\<open>env\<close>, \<open>None\<close> when it holds nothing).
\<close>

definition BaseModel_init :: "string option \<Rightarrow> string option \<Rightarrow> string option" where
  "BaseModel_init env api_key = (case api_key of Some k \<Rightarrow> Some k | None \<Rightarrow> env)"

section \<open>MoonshotModel\<close>

record MoonshotModel =
  self_base_url :: string
  self_model_name :: string
  self_api_key :: "string option"
  self_client :: "OpenAI option"

definition AVAILABLE_MODELS :: "string list" where
  "AVAILABLE_MODELS =
    [''moonshot-v1-8k'',
     ''moonshot-v1-32k'',
     ''moonshot-v1-128k'',
     ''kimi-k2-thinking'',
     ''kimi-k2-thinking-turbo'',
     ''kimi-k2-0905-preview'',
     ''kimi-k2-turbo-preview'']"

text \<open>
  \<^verbatim>\<open>initialize_client\<close>. \<^verbatim>\<open>not self.api_key\<close> holds for \<open>None\<close> and for the empty
  string. The \<^verbatim>\<open>try\<close> block builds the handle and probes; its handler prints and
  re-raises with a bare \<^verbatim>\<open>raise\<close>, so the exception that leaves is the one that came.
  The console notices (\<^verbatim>\<open>cprint\<close>) are not part of the model.
\<close>

definition initialize_client ::
  "'raw remote \<Rightarrow> MoonshotModel \<Rightarrow> call list \<Rightarrow> (exn + MoonshotModel) \<times> call list" where
  "initialize_client rm self sent =
    (case self_api_key self of
       None \<Rightarrow> (Inl (ValueError ''MOONSHOT_API_KEY not configured''), sent)
     | Some k \<Rightarrow>
         if k = [] then (Inl (ValueError ''MOONSHOT_API_KEY not configured''), sent)
         else
           (let c = OpenAI k (self_base_url self) in
            case models_list rm c sent of
              (Inl e, sent') \<Rightarrow> (Inl e, sent')
            | (Inr u, sent') \<Rightarrow> (Inr (self\<lparr>self_client := Some c\<rparr>), sent')))"

text \<open>
  \<^verbatim>\<open>__init__(self, api_key=None, model_name="kimi-k2-thinking")\<close>. An argument left out
  is \<open>None\<close> (\<open>model_name_arg\<close> is the argument \<^verbatim>\<open>model_name\<close>). The attribute
  \<^verbatim>\<open>client\<close> is not set (\<open>self_client = None\<close>) until \<^verbatim>\<open>initialize_client\<close> stores the
  handle. An exception leaving \<^verbatim>\<open>__init__\<close> leaves the caller without an object.
\<close>

definition MoonshotModel_init ::
  "'raw remote \<Rightarrow> string option \<Rightarrow> string option \<Rightarrow> string option \<Rightarrow> call list
    \<Rightarrow> (exn + MoonshotModel) \<times> call list" where
  "MoonshotModel_init rm env api_key model_name_arg sent =
    initialize_client rm
      \<lparr>self_base_url = ''https://api.moonshot.ai/v1'',
       self_model_name = arg_or_default model_name_arg ''kimi-k2-thinking'',
       self_api_key = BaseModel_init env api_key,
       self_client = None\<rparr>
      sent"

definition model_type :: "MoonshotModel \<Rightarrow> string" where
  "model_type self = ''moonshot''"

text \<open>
  \<^verbatim>\<open>is_available\<close>: the bare \<^verbatim>\<open>except:\<close> catches whatever the probe raises, and the
  \<^verbatim>\<open>AttributeError\<close> of reading \<^verbatim>\<open>self.client\<close> on an object without a handle.
\<close>

definition is_available :: "'raw remote \<Rightarrow> MoonshotModel \<Rightarrow> call list \<Rightarrow> bool \<times> call list" where
  "is_available rm self sent =
    (case self_client self of
       None \<Rightarrow> (False, sent)
     | Some c \<Rightarrow>
         (case models_list rm c sent of
            (Inl e, sent') \<Rightarrow> (False, sent')
          | (Inr u, sent') \<Rightarrow> (True, sent')))"

text \<open>
  The keyword arguments of the one \<^verbatim>\<open>create\<close> call of \<^verbatim>\<open>generate_response\<close>, as
  written there: \<^verbatim>\<open>model\<close>, \<^verbatim>\<open>messages\<close>, \<^verbatim>\<open>temperature\<close>, \<^verbatim>\<open>max_tokens\<close>. The
  method's own \<^verbatim>\<open>**kwargs\<close> does not occur in the call.
\<close>

definition create_kwargs :: "MoonshotModel \<Rightarrow> string \<Rightarrow> string \<Rightarrow> real \<Rightarrow> int option \<Rightarrow> pyval dict" where
  "create_kwargs self system_prompt user_content temperature max_tokens =
    [(''model'', PyStr (self_model_name self)),
     (''messages'', PyList
        [PyDict [(''role'', PyStr ''system''), (''content'', PyStr system_prompt)],
         PyDict [(''role'', PyStr ''user''), (''content'', PyStr user_content)]]),
     (''temperature'', PyFloat temperature),
     (''max_tokens'', (case max_tokens of None \<Rightarrow> PyNone | Some n \<Rightarrow> PyInt n))]"

text \<open>
  The body of the \<^verbatim>\<open>try\<close> block of \<^verbatim>\<open>generate_response\<close>: reading \<^verbatim>\<open>self.client\<close>
  (an \<^verbatim>\<open>AttributeError\<close> on an object without a handle), the call, then
  \<^verbatim>\<open>completion.choices[0]\<close> (an \<^verbatim>\<open>IndexError\<close> on an empty list), then the
  \<^verbatim>\<open>ModelResponse\<close> whose last argument reads \<^verbatim>\<open>completion.usage.total_tokens\<close> (an
  \<^verbatim>\<open>AttributeError\<close> when the usage is \<^verbatim>\<open>None\<close>).
\<close>

definition generate_response_try ::
  "'raw remote \<Rightarrow> MoonshotModel \<Rightarrow> string \<Rightarrow> string \<Rightarrow> real \<Rightarrow> int option \<Rightarrow> call list
    \<Rightarrow> (exn + 'raw ModelResponse) \<times> call list" where
  "generate_response_try rm self system_prompt user_content temperature max_tokens sent =
    (case self_client self of
       None \<Rightarrow> (Inl (AttributeError (has_no_attribute ''MoonshotModel'' ''client'')), sent)
     | Some c \<Rightarrow>
         (case chat_completions_create rm c
                 (create_kwargs self system_prompt user_content temperature max_tokens) sent of
            (Inl e, sent') \<Rightarrow> (Inl e, sent')
          | (Inr completion, sent') \<Rightarrow>
              (case choices completion of
                 [] \<Rightarrow> (Inl (IndexError ''list index out of range''), sent')
               | ch # rest \<Rightarrow>
                   (case completion_usage completion of
                      None \<Rightarrow>
                        (Inl (AttributeError (has_no_attribute ''NoneType'' ''total_tokens'')), sent')
                    | Some u \<Rightarrow>
                        (Inr \<lparr>content = message_content (message ch),
                              raw_response = model_dump completion,
                              model_name = self_model_name self,
                              usage = [(''total_tokens'', total_tokens u)]\<rparr>, sent')))))"

text \<open>
  \<^verbatim>\<open>generate_response(self, system_prompt, user_content, temperature=0.7,
  max_tokens=None, **kwargs)\<close>. The handler \<^verbatim>\<open>except Exception as e\<close> replaces what it
  catches by \<^verbatim>\<open>Exception(f"Moonshot API error: {str(e)}")\<close>.
\<close>

definition generate_response ::
  "'raw remote \<Rightarrow> MoonshotModel \<Rightarrow> string \<Rightarrow> string \<Rightarrow> real option \<Rightarrow> int option \<Rightarrow> pyval dict
    \<Rightarrow> call list \<Rightarrow> (exn + 'raw ModelResponse) \<times> call list" where
  "generate_response rm self system_prompt user_content temperature max_tokens kwargs sent =
    (case generate_response_try rm self system_prompt user_content
            (arg_or_default temperature (7 / 10)) max_tokens sent of
       (Inl e, sent') \<Rightarrow>
         (if isinstance_Exception e
          then (Inl (Exception (''Moonshot API error: '' @ str e)), sent')
          else (Inl e, sent'))
     | (Inr r, sent') \<Rightarrow> (Inr r, sent'))"

text \<open>The dict literal \<^verbatim>\<open>params\<close> of \<^verbatim>\<open>get_model_parameters\<close>.\<close>

definition params :: "(int dict) dict" where
  "params =
    [(''moonshot-v1-8k'', [(''context_window'', 8000), (''max_output_tokens'', 4096)]),
     (''moonshot-v1-32k'', [(''context_window'', 32000), (''max_output_tokens'', 8000)]),
     (''moonshot-v1-128k'', [(''context_window'', 128000), (''max_output_tokens'', 8000)]),
     (''kimi-k2-thinking'', [(''context_window'', 256000), (''max_output_tokens'', 8000)])]"

text \<open>
  \<^verbatim>\<open>get_model_parameters(self, model_name=None)\<close>: no call on the handle, no write, no
  \<^verbatim>\<open>raise\<close>; a function of the object and the argument alone.
\<close>

definition get_model_parameters :: "MoonshotModel \<Rightarrow> string option \<Rightarrow> int dict" where
  "get_model_parameters self model_name_arg =
    (let model = or_else model_name_arg (self_model_name self)
     in dict_get params model [])"

section \<open>Test doubles\<close>

text \<open>
  The mocked provider of the spec's testable properties: every probe succeeds and every
  completion request returns the text "hello" with 42 total tokens.
\<close>

definition mock_completion :: "string ChatCompletion" where
  "mock_completion =
    \<lparr>choices = [Choice (ChatCompletionMessage (Some ''hello''))],
     completion_usage = Some (CompletionUsage 42),
     model_dump = ''{choices: [{message: {content: hello}}], usage: {total_tokens: 42}}''\<rparr>"

definition mock_provider :: "string remote" where
  "mock_provider =
    \<lparr>models_list_reply = (\<lambda>sent c. Inr ()),
     create_reply = (\<lambda>sent c kw. Inr mock_completion)\<rparr>"

text \<open>A provider that cannot be reached: every request raises in the client library.\<close>

definition mock_provider_raising :: "string remote" where
  "mock_provider_raising =
    \<lparr>models_list_reply = (\<lambda>sent c. Inl (OtherError ''APIConnectionError'' ''Connection error.'')),
     create_reply = (\<lambda>sent c kw. Inl (OtherError ''APIConnectionError'' ''Connection error.''))\<rparr>"

text \<open>The object a successful construction with the key \<open>sk-test\<close> and model \<open>m\<close> returns.\<close>

definition mock_adapter :: "string \<Rightarrow> MoonshotModel" where
  "mock_adapter m =
    \<lparr>self_base_url = ''https://api.moonshot.ai/v1'',
     self_model_name = m,
     self_api_key = Some ''sk-test'',
     self_client = Some (OpenAI ''sk-test'' ''https://api.moonshot.ai/v1'')\<rparr>"

section \<open>The parameter table\<close>

lemma params_keys:
  "map fst params =
    [''moonshot-v1-8k'', ''moonshot-v1-32k'', ''moonshot-v1-128k'', ''kimi-k2-thinking'']"
  by (simp add: params_def)

lemma get_model_parameters_given:
  "m \<noteq> [] \<Longrightarrow> get_model_parameters self (Some m) = dict_get params m []"
  by (simp add: get_model_parameters_def or_else_def)

lemma get_model_parameters_falsy:
  "get_model_parameters self None = dict_get params (self_model_name self) []"
  "get_model_parameters self (Some []) = dict_get params (self_model_name self) []"
  by (simp_all add: get_model_parameters_def or_else_def)

lemma dict_get_params_8k:
  "dict_get params ''moonshot-v1-8k'' []
    = [(''context_window'', 8000), (''max_output_tokens'', 4096)]"
  by (simp add: params_def dict_get_def)

lemma dict_get_params_k2_thinking:
  "dict_get params ''kimi-k2-thinking'' []
    = [(''context_window'', 256000), (''max_output_tokens'', 8000)]"
  by (simp add: params_def dict_get_def)

lemma dict_get_params_absent:
  "k \<notin> set (map fst params) \<Longrightarrow> dict_get params k [] = []"
  by (simp add: dict_get_def map_of_eq_None_iff [THEN iffD2])

text \<open>
  C4, as stated, at the empty identifier. The claim has \<^verbatim>\<open>get_model_parameters\<close> look up
  the identifier it is given. The source chooses with \<^verbatim>\<open>model_name or self.model_name\<close>,
  and the empty string is falsy: on an adapter configured with \<open>moonshot-v1-8k\<close>, the call
  \<^verbatim>\<open>get_model_parameters("")\<close> returns the entry of \<open>moonshot-v1-8k\<close>, not the empty
  mapping that the lookup of the given identifier yields.
\<close>

theorem get_model_parameters_empty_identifier_counterexample:
  "get_model_parameters (mock_adapter ''moonshot-v1-8k'') (Some []) \<noteq> dict_get params [] []"
proof -
  have "get_model_parameters (mock_adapter ''moonshot-v1-8k'') (Some [])
      = [(''context_window'', 8000), (''max_output_tokens'', 4096)]"
    by (simp add: get_model_parameters_falsy dict_get_params_8k mock_adapter_def)
  moreover have "dict_get params [] [] = []"
    by (rule dict_get_params_absent) (simp add: params_keys)
  ultimately show ?thesis by simp
qed

text \<open>
  C4, amended. \<^verbatim>\<open>get_model_parameters("moonshot-v1-8k")\<close> returns exactly
  \<open>{context_window: 8000, max_output_tokens: 4096}\<close> and
  \<^verbatim>\<open>get_model_parameters("unknown-model-xyz")\<close> returns the empty mapping. For every
  input the method looks up the given identifier when it is a non-empty string, and the
  configured identifier when none or the empty string is given; the result is the entry
  found in the table, or the empty mapping when the table has none. The method is a
  function of the object and its argument: it sends nothing and has no error result.
\<close>

theorem get_model_parameters_lookup:
  "get_model_parameters self (Some ''moonshot-v1-8k'')
      = [(''context_window'', 8000), (''max_output_tokens'', 4096)]
   \<and> get_model_parameters self (Some ''unknown-model-xyz'') = []
   \<and> (m \<noteq> [] \<longrightarrow> get_model_parameters self (Some m) = dict_get params m [])
   \<and> get_model_parameters self (Some []) = dict_get params (self_model_name self) []
   \<and> get_model_parameters self None = dict_get params (self_model_name self) []
   \<and> (map_of params k = Some entry \<longrightarrow> dict_get params k [] = entry)
   \<and> (map_of params k = None \<longrightarrow> dict_get params k [] = [])"
proof -
  have "get_model_parameters self (Some ''moonshot-v1-8k'')
      = [(''context_window'', 8000), (''max_output_tokens'', 4096)]"
    by (simp add: get_model_parameters_given dict_get_params_8k)
  moreover have "get_model_parameters self (Some ''unknown-model-xyz'') = []"
    by (simp add: get_model_parameters_given dict_get_params_absent params_keys)
  ultimately show ?thesis
    by (simp add: get_model_parameters_given get_model_parameters_falsy dict_get_def)
qed

text \<open>
  The amended C4 on an adapter configured with \<open>kimi-k2-thinking\<close>: a listed identifier
  and an unlisted one, both non-empty.
\<close>

theorem get_model_parameters_lookup_witness:
  "get_model_parameters (mock_adapter ''kimi-k2-thinking'') (Some ''moonshot-v1-32k'')
      = [(''context_window'', 32000), (''max_output_tokens'', 8000)]
   \<and> get_model_parameters (mock_adapter ''kimi-k2-thinking'') (Some ''gpt-4'') = []"
proof -
  have found: "map_of params ''moonshot-v1-32k''
      = Some [(''context_window'', 32000), (''max_output_tokens'', 8000)]"
    by (simp add: params_def)
  have absent: "map_of params ''gpt-4'' = None"
    by (simp add: params_def)
  have "''moonshot-v1-32k'' \<noteq> []" and "''gpt-4'' \<noteq> []"
    by simp_all
  then show ?thesis
    using get_model_parameters_lookup
        [of "mock_adapter ''kimi-k2-thinking''" "''moonshot-v1-32k''" "''moonshot-v1-32k''"
            "[(''context_window'', 32000), (''max_output_tokens'', 8000)]"]
      get_model_parameters_lookup
        [of "mock_adapter ''kimi-k2-thinking''" "''gpt-4''" "''gpt-4''"]
      found absent
    by simp
qed

text \<open>
  C10. The keys of the parameter table are a strict subset of \<^verbatim>\<open>AVAILABLE_MODELS\<close>:
  \<open>kimi-k2-thinking-turbo\<close>, \<open>kimi-k2-0905-preview\<close> and \<open>kimi-k2-turbo-preview\<close> are
  listed as available, and \<^verbatim>\<open>get_model_parameters\<close> returns the empty mapping for each.
\<close>

theorem params_keys_strict_subset:
  "set (map fst params) \<subset> set AVAILABLE_MODELS
   \<and> ''kimi-k2-thinking-turbo'' \<in> set AVAILABLE_MODELS
   \<and> get_model_parameters self (Some ''kimi-k2-thinking-turbo'') = []
   \<and> ''kimi-k2-0905-preview'' \<in> set AVAILABLE_MODELS
   \<and> get_model_parameters self (Some ''kimi-k2-0905-preview'') = []
   \<and> ''kimi-k2-turbo-preview'' \<in> set AVAILABLE_MODELS
   \<and> get_model_parameters self (Some ''kimi-k2-turbo-preview'') = []"
proof -
  have listed: "''kimi-k2-thinking-turbo'' \<in> set AVAILABLE_MODELS"
    "''kimi-k2-0905-preview'' \<in> set AVAILABLE_MODELS"
    "''kimi-k2-turbo-preview'' \<in> set AVAILABLE_MODELS"
    by (simp_all add: AVAILABLE_MODELS_def)
  have no_entry: "''kimi-k2-thinking-turbo'' \<notin> set (map fst params)"
    "''kimi-k2-0905-preview'' \<notin> set (map fst params)"
    "''kimi-k2-turbo-preview'' \<notin> set (map fst params)"
    by (simp_all add: params_keys)
  have "set (map fst params) \<subseteq> set AVAILABLE_MODELS"
    by (simp add: params_keys AVAILABLE_MODELS_def)
  with listed(1) no_entry(1) have "set (map fst params) \<subset> set AVAILABLE_MODELS"
    by blast
  moreover have "get_model_parameters self (Some ''kimi-k2-thinking-turbo'') = []"
    "get_model_parameters self (Some ''kimi-k2-0905-preview'') = []"
    "get_model_parameters self (Some ''kimi-k2-turbo-preview'') = []"
    using no_entry by (simp_all add: get_model_parameters_given dict_get_params_absent)
  ultimately show ?thesis
    using listed by simp
qed

section \<open>Construction\<close>

lemma initialize_client_no_key:
  "self_api_key self = None \<or> self_api_key self = Some [] \<Longrightarrow>
    initialize_client rm self sent = (Inl (ValueError ''MOONSHOT_API_KEY not configured''), sent)"
  by (auto simp add: initialize_client_def)

lemma initialize_client_probe:
  assumes "self_api_key self = Some k" and "k \<noteq> []"
  shows "initialize_client rm self sent =
    (case models_list_reply rm sent (OpenAI k (self_base_url self)) of
       Inl e \<Rightarrow> Inl e
     | Inr u \<Rightarrow> Inr (self\<lparr>self_client := Some (OpenAI k (self_base_url self))\<rparr>),
     sent @ [ModelsList (OpenAI k (self_base_url self))])"
  using assms by (simp add: initialize_client_def models_list_def Let_def split: sum.splits)

lemma MoonshotModel_init_probe:
  assumes "BaseModel_init env api_key = Some k" and "k \<noteq> []"
  shows "MoonshotModel_init rm env api_key model_name_arg sent =
    (case models_list_reply rm sent (OpenAI k ''https://api.moonshot.ai/v1'') of
       Inl e \<Rightarrow> Inl e
     | Inr u \<Rightarrow>
         Inr \<lparr>self_base_url = ''https://api.moonshot.ai/v1'',
              self_model_name = arg_or_default model_name_arg ''kimi-k2-thinking'',
              self_api_key = Some k,
              self_client = Some (OpenAI k ''https://api.moonshot.ai/v1'')\<rparr>,
     sent @ [ModelsList (OpenAI k ''https://api.moonshot.ai/v1'')])"
proof -
  let ?self = "\<lparr>self_base_url = ''https://api.moonshot.ai/v1'',
      self_model_name = arg_or_default model_name_arg ''kimi-k2-thinking'',
      self_api_key = BaseModel_init env api_key,
      self_client = None\<rparr>"
  have key: "self_api_key ?self = Some k"
    using assms(1) by simp
  show ?thesis
    unfolding MoonshotModel_init_def initialize_client_probe [OF key assms(2)]
    using assms(1) by (simp split: sum.splits)
qed

lemma MoonshotModel_init_no_key:
  assumes "BaseModel_init env api_key = None \<or> BaseModel_init env api_key = Some []"
  shows "MoonshotModel_init rm env api_key model_name_arg sent
    = (Inl (ValueError ''MOONSHOT_API_KEY not configured''), sent)"
  using assms by (simp add: MoonshotModel_init_def initialize_client_no_key)

text \<open>Every object a construction returns holds its model identifier and a handle.\<close>

lemma MoonshotModel_init_returned:
  assumes "fst (MoonshotModel_init rm env api_key model_name_arg sent) = Inr self"
  shows "self_model_name self = arg_or_default model_name_arg ''kimi-k2-thinking''
    \<and> (\<exists>k. k \<noteq> [] \<and> self_client self = Some (OpenAI k ''https://api.moonshot.ai/v1''))"
proof (cases "BaseModel_init env api_key")
  case None
  with assms show ?thesis
    by (simp add: MoonshotModel_init_no_key)
next
  case (Some k)
  show ?thesis
  proof (cases "k = []")
    case True
    with Some assms show ?thesis
      by (simp add: MoonshotModel_init_no_key)
  next
    case False
    from assms show ?thesis
      unfolding MoonshotModel_init_probe [OF Some False]
      using False by (auto split: sum.splits)
  qed
qed

text \<open>
  C3. Construction with no credential argument and none in the environment raises the
  \<^verbatim>\<open>ValueError\<close> of \<^verbatim>\<open>initialize_client\<close> (the spec's ConfigurationError), for every
  model identifier argument, given or left out. No object is returned and nothing has
  been sent to the provider.
\<close>

theorem MoonshotModel_init_without_credential:
  "MoonshotModel_init rm None None model_name_arg sent
    = (Inl (ValueError ''MOONSHOT_API_KEY not configured''), sent)"
proof -
  have "BaseModel_init None None = None"
    by (simp add: BaseModel_init_def)
  then have "BaseModel_init None None = None \<or> BaseModel_init None None = Some []"
    by simp
  then show ?thesis
    by (rule MoonshotModel_init_no_key)
qed

text \<open>
  C7. Construction with a credential (a non-empty key, from the argument or the
  environment) whose probe raises \<open>e\<close>: the handler re-raises, so construction ends with
  \<open>e\<close> itself, the underlying cause, after the one probe. No object is returned. The
  source has no exception class of its own for this case; the spec's ConnectionError is
  whatever the client library raised.
\<close>

theorem MoonshotModel_init_probe_fails:
  assumes "BaseModel_init env api_key = Some k" and "k \<noteq> []"
    and "models_list_reply rm sent (OpenAI k ''https://api.moonshot.ai/v1'') = Inl e"
  shows "MoonshotModel_init rm env api_key model_name_arg sent
    = (Inl e, sent @ [ModelsList (OpenAI k ''https://api.moonshot.ai/v1'')])"
  unfolding MoonshotModel_init_probe [OF assms(1) assms(2)]
  using assms(3) by simp

text \<open>C7 on the provider that cannot be reached, with the key \<open>sk-test\<close>.\<close>

theorem MoonshotModel_init_probe_fails_witness:
  "MoonshotModel_init mock_provider_raising None (Some ''sk-test'') (Some ''moonshot-v1-8k'') []
    = (Inl (OtherError ''APIConnectionError'' ''Connection error.''),
       [ModelsList (OpenAI ''sk-test'' ''https://api.moonshot.ai/v1'')])"
proof -
  have key: "BaseModel_init None (Some ''sk-test'') = Some ''sk-test''"
    by (simp add: BaseModel_init_def)
  have nonempty: "''sk-test'' \<noteq> []"
    by simp
  have probe: "models_list_reply mock_provider_raising []
      (OpenAI ''sk-test'' ''https://api.moonshot.ai/v1'')
      = Inl (OtherError ''APIConnectionError'' ''Connection error.'')"
    by (simp add: mock_provider_raising_def)
  from MoonshotModel_init_probe_fails [OF key nonempty probe, of "Some ''moonshot-v1-8k''"]
  show ?thesis by simp
qed

text \<open>
  C6, as stated, at the identifier \<open>unknown-model-xyz\<close>. The claim has construction
  reject an identifier outside the known-models set. \<^verbatim>\<open>__init__\<close> stores the identifier
  and never reads \<^verbatim>\<open>AVAILABLE_MODELS\<close>: with a key and a provider that answers the
  probe, construction returns a usable object configured with the unknown identifier.
\<close>

theorem MoonshotModel_init_unknown_model_counterexample:
  "''unknown-model-xyz'' \<notin> set AVAILABLE_MODELS
   \<and> fst (MoonshotModel_init mock_provider None (Some ''sk-test'') (Some ''unknown-model-xyz'') [])
        = Inr (mock_adapter ''unknown-model-xyz'')"
proof -
  have key: "BaseModel_init None (Some ''sk-test'') = Some ''sk-test''"
    by (simp add: BaseModel_init_def)
  have "fst (MoonshotModel_init mock_provider None (Some ''sk-test'') (Some ''unknown-model-xyz'') [])
      = Inr (mock_adapter ''unknown-model-xyz'')"
    unfolding MoonshotModel_init_probe
      [OF key, of mock_provider "Some ''unknown-model-xyz''" "[]", simplified]
    by (simp add: mock_provider_def mock_adapter_def arg_or_default_def)
  moreover have "''unknown-model-xyz'' \<notin> set AVAILABLE_MODELS"
    by (simp add: AVAILABLE_MODELS_def)
  ultimately show ?thesis by simp
qed

text \<open>
  C6, amended. Construction does not check the model identifier against the known-models
  set: for every identifier \<open>m\<close>, in the set or not, construction with a credential and a
  probe that succeeds returns an object configured with \<open>m\<close> as given.
\<close>

theorem MoonshotModel_init_any_model:
  assumes "BaseModel_init env api_key = Some k" and "k \<noteq> []"
    and "models_list_reply rm sent (OpenAI k ''https://api.moonshot.ai/v1'') = Inr ()"
  shows "fst (MoonshotModel_init rm env api_key (Some m) sent)
    = Inr \<lparr>self_base_url = ''https://api.moonshot.ai/v1'',
           self_model_name = m,
           self_api_key = Some k,
           self_client = Some (OpenAI k ''https://api.moonshot.ai/v1'')\<rparr>"
  unfolding MoonshotModel_init_probe [OF assms(1) assms(2)]
  using assms(3) by (simp add: arg_or_default_def)

text \<open>
  The amended C6 with the key \<open>sk-env\<close> taken from the environment and the identifier
  \<open>gpt-4\<close>, which is not among the available models.
\<close>

theorem MoonshotModel_init_any_model_witness:
  "''gpt-4'' \<notin> set AVAILABLE_MODELS
   \<and> fst (MoonshotModel_init mock_provider (Some ''sk-env'') None (Some ''gpt-4'') [])
      = Inr \<lparr>self_base_url = ''https://api.moonshot.ai/v1'',
             self_model_name = ''gpt-4'',
             self_api_key = Some ''sk-env'',
             self_client = Some (OpenAI ''sk-env'' ''https://api.moonshot.ai/v1'')\<rparr>"
proof -
  have key: "BaseModel_init (Some ''sk-env'') None = Some ''sk-env''"
    by (simp add: BaseModel_init_def)
  have nonempty: "''sk-env'' \<noteq> []"
    by simp
  have probe: "models_list_reply mock_provider [] (OpenAI ''sk-env'' ''https://api.moonshot.ai/v1'')
      = Inr ()"
    by (simp add: mock_provider_def)
  have "''gpt-4'' \<notin> set AVAILABLE_MODELS"
    by (simp add: AVAILABLE_MODELS_def)
  with MoonshotModel_init_any_model [OF key nonempty probe, of "''gpt-4''"]
  show ?thesis by simp
qed

text \<open>
  C5, as stated. The claim has \<open>kimi-k2-thinking\<close>, the default of \<^verbatim>\<open>__init__\<close>,
  unlisted in the parameter table, with an empty mapping returned for it. The table's
  fourth entry is \<open>kimi-k2-thinking\<close>, and the mapping returned for it is not empty.
\<close>

theorem get_model_parameters_default_model_counterexample:
  "get_model_parameters (mock_adapter ''kimi-k2-thinking'') (Some ''kimi-k2-thinking'') \<noteq> []
   \<and> ''kimi-k2-thinking'' \<in> set (map fst params)"
  by (simp add: get_model_parameters_given dict_get_params_k2_thinking params_keys)

text \<open>
  C5, amended. \<open>kimi-k2-thinking\<close> is a key of the parameter table, and
  \<^verbatim>\<open>get_model_parameters\<close> returns \<open>{context_window: 256000, max_output_tokens: 8000}\<close>
  for it; an adapter constructed without a model identifier is configured with it, and
  gets the same mapping when it asks for its own parameters.
\<close>

theorem get_model_parameters_default_model:
  "''kimi-k2-thinking'' \<in> set (map fst params)
   \<and> get_model_parameters self (Some ''kimi-k2-thinking'')
        = [(''context_window'', 256000), (''max_output_tokens'', 8000)]
   \<and> (fst (MoonshotModel_init rm env api_key None sent) = Inr adapter \<longrightarrow>
        get_model_parameters adapter None
          = [(''context_window'', 256000), (''max_output_tokens'', 8000)])"
proof -
  have "get_model_parameters adapter None
      = [(''context_window'', 256000), (''max_output_tokens'', 8000)]"
    if "fst (MoonshotModel_init rm env api_key None sent) = Inr adapter"
    using MoonshotModel_init_returned [OF that]
    by (simp add: get_model_parameters_falsy dict_get_params_k2_thinking arg_or_default_def)
  then show ?thesis
    by (simp add: get_model_parameters_given dict_get_params_k2_thinking params_keys)
qed

text \<open>The amended C5 on the adapter that the mocked provider and the key \<open>sk-test\<close> give.\<close>

theorem get_model_parameters_default_model_witness:
  "fst (MoonshotModel_init mock_provider None (Some ''sk-test'') None [])
      = Inr (mock_adapter ''kimi-k2-thinking'')
   \<and> get_model_parameters (mock_adapter ''kimi-k2-thinking'') None
        = [(''context_window'', 256000), (''max_output_tokens'', 8000)]"
proof -
  have key: "BaseModel_init None (Some ''sk-test'') = Some ''sk-test''"
    by (simp add: BaseModel_init_def)
  have built: "fst (MoonshotModel_init mock_provider None (Some ''sk-test'') None [])
      = Inr (mock_adapter ''kimi-k2-thinking'')"
    unfolding MoonshotModel_init_probe [OF key, of mock_provider None "[]", simplified]
    by (simp add: mock_provider_def mock_adapter_def arg_or_default_def)
  with get_model_parameters_default_model
      [of "mock_adapter ''kimi-k2-thinking''" mock_provider None "Some ''sk-test''" "[]"
          "mock_adapter ''kimi-k2-thinking''"]
  show ?thesis by simp
qed

section \<open>The availability check\<close>

lemma is_available_no_handle:
  "self_client self = None \<Longrightarrow> is_available rm self sent = (False, sent)"
  by (simp add: is_available_def)

text \<open>
  C8. \<^verbatim>\<open>is_available\<close> has no error result: on an adapter with its handle it sends one
  probe and returns a boolean, \<open>True\<close> when the probe succeeds and \<open>False\<close> when the
  probe raises, whatever it raises.
\<close>

theorem is_available_never_raises:
  assumes "self_client self = Some c"
  shows "is_available rm self sent
    = (models_list_reply rm sent c = Inr (), sent @ [ModelsList c])"
  using assms by (simp add: is_available_def models_list_def split: sum.splits)

text \<open>C8 on the mocked provider and on the provider that cannot be reached.\<close>

theorem is_available_never_raises_witness:
  "fst (is_available mock_provider (mock_adapter ''moonshot-v1-8k'') []) = True
   \<and> fst (is_available mock_provider_raising (mock_adapter ''moonshot-v1-8k'') []) = False"
proof -
  let ?c = "OpenAI ''sk-test'' ''https://api.moonshot.ai/v1''"
  have handle: "self_client (mock_adapter ''moonshot-v1-8k'') = Some ?c"
    by (simp add: mock_adapter_def)
  have "models_list_reply mock_provider [] ?c = Inr ()"
    by (simp add: mock_provider_def)
  moreover have "models_list_reply mock_provider_raising [] ?c \<noteq> Inr ()"
    by (simp add: mock_provider_raising_def)
  ultimately show ?thesis
    using is_available_never_raises [OF handle, of mock_provider "[]"]
      is_available_never_raises [OF handle, of mock_provider_raising "[]"]
    by simp
qed

section \<open>Response generation\<close>

lemma generate_response_try_sent:
  "self_client self = Some c \<Longrightarrow>
    snd (generate_response_try rm self system_prompt user_content t max_tokens sent) =
      sent @ [ChatCompletionsCreate c (create_kwargs self system_prompt user_content t max_tokens)]"
  by (simp add: generate_response_try_def chat_completions_create_def
      split: sum.splits list.splits option.splits)

lemma generate_response_sent:
  "snd (generate_response rm self system_prompt user_content temperature max_tokens kwargs sent) =
    snd (generate_response_try rm self system_prompt user_content
           (arg_or_default temperature (7 / 10)) max_tokens sent)"
  by (simp add: generate_response_def split: prod.splits sum.splits)

lemma generate_response_try_raised:
  assumes "self_client self = Some c"
    and "create_reply rm sent c (create_kwargs self system_prompt user_content t max_tokens) = Inl e"
  shows "fst (generate_response_try rm self system_prompt user_content t max_tokens sent) = Inl e"
  using assms by (simp add: generate_response_try_def chat_completions_create_def)

lemma generate_response_try_returned:
  assumes "self_client self = Some c"
    and "create_reply rm sent c (create_kwargs self system_prompt user_content t max_tokens)
          = Inr completion"
  shows "fst (generate_response_try rm self system_prompt user_content t max_tokens sent) =
    (case choices completion of
       [] \<Rightarrow> Inl (IndexError ''list index out of range'')
     | ch # rest \<Rightarrow>
         (case completion_usage completion of
            None \<Rightarrow> Inl (AttributeError (has_no_attribute ''NoneType'' ''total_tokens''))
          | Some u \<Rightarrow>
              Inr \<lparr>content = message_content (message ch),
                   raw_response = model_dump completion,
                   model_name = self_model_name self,
                   usage = [(''total_tokens'', total_tokens u)]\<rparr>))"
  using assms
  by (simp add: generate_response_try_def chat_completions_create_def
      split: list.splits option.splits)

lemma generate_response_fst:
  "fst (generate_response rm self system_prompt user_content temperature max_tokens kwargs sent) =
    (case fst (generate_response_try rm self system_prompt user_content
                 (arg_or_default temperature (7 / 10)) max_tokens sent) of
       Inl e \<Rightarrow> Inl (if isinstance_Exception e
                     then Exception (''Moonshot API error: '' @ str e) else e)
     | Inr r \<Rightarrow> Inr r)"
  by (simp add: generate_response_def split: prod.splits sum.splits)

text \<open>
  A reply that lacks what the method reads (no choice at all, or no usage block) ends in
  the handler like an error of the provider: the caller gets the wrapped exception and no
  response.
\<close>

lemma generate_response_no_choices:
  assumes "self_client self = Some c"
    and "create_reply rm sent c
          (create_kwargs self system_prompt user_content (arg_or_default temperature (7 / 10)) max_tokens)
          = Inr completion"
    and "choices completion = []"
  shows "fst (generate_response rm self system_prompt user_content temperature max_tokens kwargs sent)
    = Inl (Exception ''Moonshot API error: list index out of range'')"
  using assms
  by (simp add: generate_response_fst generate_response_try_returned [OF assms(1) assms(2)])

lemma generate_response_no_usage:
  assumes "self_client self = Some c"
    and "create_reply rm sent c
          (create_kwargs self system_prompt user_content (arg_or_default temperature (7 / 10)) max_tokens)
          = Inr completion"
    and "choices completion = ch # rest"
    and "completion_usage completion = None"
  shows "fst (generate_response rm self system_prompt user_content temperature max_tokens kwargs sent)
    = Inl (Exception (''Moonshot API error: '' @ has_no_attribute ''NoneType'' ''total_tokens''))"
  using assms
  by (simp add: generate_response_fst generate_response_try_returned [OF assms(1) assms(2)])

text \<open>
  C1. When the provider request succeeds, that is, the provider answers with a completion
  that has a first choice and reports its usage, \<^verbatim>\<open>generate_response\<close> returns a
  \<^verbatim>\<open>ModelResponse\<close> whose content is the content of the first choice's message, whose raw
  payload is the dump of the whole completion, whose model identifier is the adapter's
  configured one, and whose usage mapping holds the total token count the provider
  reported. (The two lemmas above say what a reply without a choice or without usage
  leads to.)
\<close>

theorem generate_response_returns_ModelResponse:
  assumes "self_client self = Some c"
    and "create_reply rm sent c
          (create_kwargs self system_prompt user_content (arg_or_default temperature (7 / 10)) max_tokens)
          = Inr completion"
    and "choices completion = ch # rest"
    and "completion_usage completion = Some u"
  shows "fst (generate_response rm self system_prompt user_content temperature max_tokens kwargs sent)
    = Inr \<lparr>content = message_content (message ch),
           raw_response = model_dump completion,
           model_name = self_model_name self,
           usage = [(''total_tokens'', total_tokens u)]\<rparr>"
proof -
  have "fst (generate_response_try rm self system_prompt user_content
               (arg_or_default temperature (7 / 10)) max_tokens sent)
    = Inr \<lparr>content = message_content (message ch),
           raw_response = model_dump completion,
           model_name = self_model_name self,
           usage = [(''total_tokens'', total_tokens u)]\<rparr>"
    using assms(3) assms(4)
    by (simp add: generate_response_try_returned [OF assms(1) assms(2)])
  then show ?thesis
    by (simp add: generate_response_fst)
qed

text \<open>
  C1 on the mocked provider that returns the text "hello" and 42 total tokens: the content
  is "hello", the usage holds 42 under \<open>total_tokens\<close>, and the model identifier is the
  configured one.
\<close>

theorem generate_response_returns_ModelResponse_witness:
  "fst (generate_response mock_provider (mock_adapter ''moonshot-v1-8k'')
          ''You are a helpful assistant.'' ''Say hello.'' None None [] [])
    = Inr \<lparr>content = Some ''hello'',
           raw_response = model_dump mock_completion,
           model_name = self_model_name (mock_adapter ''moonshot-v1-8k''),
           usage = [(''total_tokens'', 42)]\<rparr>"
proof -
  let ?c = "OpenAI ''sk-test'' ''https://api.moonshot.ai/v1''"
  let ?ch = "Choice (ChatCompletionMessage (Some ''hello''))"
  have handle: "self_client (mock_adapter ''moonshot-v1-8k'') = Some ?c"
    by (simp add: mock_adapter_def)
  have reply: "create_reply mock_provider [] ?c
      (create_kwargs (mock_adapter ''moonshot-v1-8k'') ''You are a helpful assistant.''
         ''Say hello.'' (arg_or_default None (7 / 10)) None) = Inr mock_completion"
    by (simp add: mock_provider_def)
  have first: "choices mock_completion = ?ch # []"
    by (simp add: mock_completion_def)
  have used: "completion_usage mock_completion = Some (CompletionUsage 42)"
    by (simp add: mock_completion_def)
  show ?thesis
    using generate_response_returns_ModelResponse [OF handle reply first used, of "[]"]
    by simp
qed

text \<open>
  C2. When the provider call raises \<open>e\<close>, \<^verbatim>\<open>generate_response\<close> returns no response: it
  raises. For every error, that is, every instance of \<^verbatim>\<open>Exception\<close>, what it raises is
  \<^verbatim>\<open>Exception("Moonshot API error: " + str(e))\<close>, which carries the message of the
  cause. (What is raised outside \<^verbatim>\<open>Exception\<close>, an interrupt or an interpreter exit,
  passes the handler unchanged; the caller gets no response either.)
\<close>

theorem generate_response_wraps_error:
  assumes "self_client self = Some c"
    and "create_reply rm sent c
          (create_kwargs self system_prompt user_content (arg_or_default temperature (7 / 10)) max_tokens)
          = Inl e"
  shows "fst (generate_response rm self system_prompt user_content temperature max_tokens kwargs sent)
    = Inl (if isinstance_Exception e then Exception (''Moonshot API error: '' @ str e) else e)"
proof -
  have "fst (generate_response_try rm self system_prompt user_content
               (arg_or_default temperature (7 / 10)) max_tokens sent) = Inl e"
    by (rule generate_response_try_raised [OF assms])
  then show ?thesis
    by (simp add: generate_response_fst)
qed

text \<open>C2 on the provider that cannot be reached.\<close>

theorem generate_response_wraps_error_witness:
  "fst (generate_response mock_provider_raising (mock_adapter ''moonshot-v1-8k'')
          ''You are a helpful assistant.'' ''Say hello.'' None None [] [])
    = Inl (Exception ''Moonshot API error: Connection error.'')"
proof -
  let ?c = "OpenAI ''sk-test'' ''https://api.moonshot.ai/v1''"
  have handle: "self_client (mock_adapter ''moonshot-v1-8k'') = Some ?c"
    by (simp add: mock_adapter_def)
  have reply: "create_reply mock_provider_raising [] ?c
      (create_kwargs (mock_adapter ''moonshot-v1-8k'') ''You are a helpful assistant.''
         ''Say hello.'' (arg_or_default None (7 / 10)) None)
      = Inl (OtherError ''APIConnectionError'' ''Connection error.'')"
    by (simp add: mock_provider_raising_def)
  show ?thesis
    using generate_response_wraps_error [OF handle reply, of "[]"]
    by simp
qed

text \<open>
  C9, as stated, at a call with the extra option \<open>top_p = 0.9\<close>. The claim has the request
  carry the caller's extra options. The method accepts \<^verbatim>\<open>**kwargs\<close> and does not hand
  it to \<^verbatim>\<open>create\<close>: the one call of \<^verbatim>\<open>create\<close> has the four keyword arguments
  \<open>model\<close>, \<open>messages\<close>, \<open>temperature\<close>, \<open>max_tokens\<close>, and no \<open>top_p\<close>.
\<close>

theorem generate_response_drops_kwargs_counterexample:
  "snd (generate_response mock_provider (mock_adapter ''kimi-k2-thinking'')
          ''You are a helpful assistant.'' ''Say hello.'' None None
          [(''top_p'', PyFloat (9 / 10))] [])
    = [ChatCompletionsCreate (OpenAI ''sk-test'' ''https://api.moonshot.ai/v1'')
         [(''model'', PyStr ''kimi-k2-thinking''),
          (''messages'', PyList
             [PyDict [(''role'', PyStr ''system''),
                      (''content'', PyStr ''You are a helpful assistant.'')],
              PyDict [(''role'', PyStr ''user''), (''content'', PyStr ''Say hello.'')]]),
          (''temperature'', PyFloat (7 / 10)),
          (''max_tokens'', PyNone)]]
   \<and> map_of (create_kwargs (mock_adapter ''kimi-k2-thinking'')
                ''You are a helpful assistant.'' ''Say hello.'' (7 / 10) None) ''top_p'' = None"
proof -
  have handle: "self_client (mock_adapter ''kimi-k2-thinking'')
      = Some (OpenAI ''sk-test'' ''https://api.moonshot.ai/v1'')"
    by (simp add: mock_adapter_def)
  have "snd (generate_response mock_provider (mock_adapter ''kimi-k2-thinking'')
          ''You are a helpful assistant.'' ''Say hello.'' None None
          [(''top_p'', PyFloat (9 / 10))] [])
    = [ChatCompletionsCreate (OpenAI ''sk-test'' ''https://api.moonshot.ai/v1'')
         (create_kwargs (mock_adapter ''kimi-k2-thinking'')
            ''You are a helpful assistant.'' ''Say hello.'' (7 / 10) None)]"
    unfolding generate_response_sent generate_response_try_sent [OF handle]
    by (simp add: arg_or_default_def)
  then show ?thesis
    by (simp add: create_kwargs_def mock_adapter_def)
qed

text \<open>
  C9, amended. Every call of \<^verbatim>\<open>generate_response\<close> on an adapter with its handle makes
  exactly one call of the client library's \<^verbatim>\<open>chat.completions.create\<close>. Its keyword
  arguments are the configured model, the message list with exactly two entries in order
  (first the system-role message carrying \<open>system_prompt\<close>, then the user-role message
  carrying \<open>user_content\<close>), the temperature (0.7 when left out) and \<open>max_tokens\<close>
  (\<open>None\<close> when left out). The call does not depend on the extra options of the caller
  and has no \<open>stream\<close> argument, and the adapter itself does not repeat it, whatever the
  outcome. How many HTTP requests the client library sends for that one call (it retries
  on its own under its default setting) is not part of the statement.
\<close>

theorem generate_response_one_create_call:
  assumes "self_client self = Some c"
  shows "snd (generate_response rm self system_prompt user_content temperature max_tokens kwargs sent)
    = sent @
      [ChatCompletionsCreate c
         [(''model'', PyStr (self_model_name self)),
          (''messages'', PyList
             [PyDict [(''role'', PyStr ''system''), (''content'', PyStr system_prompt)],
              PyDict [(''role'', PyStr ''user''), (''content'', PyStr user_content)]]),
          (''temperature'', PyFloat (arg_or_default temperature (7 / 10))),
          (''max_tokens'', (case max_tokens of None \<Rightarrow> PyNone | Some n \<Rightarrow> PyInt n))]]"
  unfolding generate_response_sent generate_response_try_sent [OF assms]
  by (simp add: create_kwargs_def)

text \<open>
  The amended C9 on a call made after the probe of the construction, with a temperature,
  a token limit and the extra option \<open>stream\<close>.
\<close>

theorem generate_response_one_create_call_witness:
  "snd (generate_response mock_provider (mock_adapter ''moonshot-v1-32k'')
          ''Be brief.'' ''Define a token.'' (Some (1 / 5)) (Some 256) [(''stream'', PyBool True)]
          [ModelsList (OpenAI ''sk-test'' ''https://api.moonshot.ai/v1'')])
    = [ModelsList (OpenAI ''sk-test'' ''https://api.moonshot.ai/v1''),
       ChatCompletionsCreate (OpenAI ''sk-test'' ''https://api.moonshot.ai/v1'')
         [(''model'', PyStr ''moonshot-v1-32k''),
          (''messages'', PyList
             [PyDict [(''role'', PyStr ''system''), (''content'', PyStr ''Be brief.'')],
              PyDict [(''role'', PyStr ''user''), (''content'', PyStr ''Define a token.'')]]),
          (''temperature'', PyFloat (1 / 5)),
          (''max_tokens'', PyInt 256)]]"
proof -
  have handle: "self_client (mock_adapter ''moonshot-v1-32k'')
      = Some (OpenAI ''sk-test'' ''https://api.moonshot.ai/v1'')"
    by (simp add: mock_adapter_def)
  from generate_response_one_create_call [OF handle, of mock_provider "''Be brief.''"
      "''Define a token.''" "Some (1 / 5)" "Some 256" "[(''stream'', PyBool True)]"
      "[ModelsList (OpenAI ''sk-test'' ''https://api.moonshot.ai/v1'')]"]
  show ?thesis
    by (simp add: arg_or_default_def mock_adapter_def)
qed

end
